theory Spec2Isabelle
  imports Complex_Main
begin

section \<open>Errors and the effect type\<close>

text \<open>
  The Python code mutates one shared \<open>DataBank\<close> and raises exceptions. Every operation
  of the model takes the bank and returns the outcome (\<open>Inl\<close> an exception, \<open>Inr\<close> the
  returned value) together with the bank as it is when the call ends. A raise keeps the
  writes done before it, as in Python.

  \<open>IndexError prefix addr\<close> stands for \<open>IndexError(f"<prefix>{addr}")\<close>; \<open>OverflowError\<close>
  is what \<open>int * float\<close> raises when the int is too large for a double.
\<close>

datatype error = IndexError string int | OverflowError

record DataBank =
  i_regs :: "int list"
  h_regs :: "int list"
  coils :: "bool list"
  d_inputs :: "bool list"

type_synonym 'a dm = "DataBank \<Rightarrow> (error + 'a) \<times> DataBank"

definition dm_return :: "'a \<Rightarrow> 'a dm" where
  "dm_return x db = (Inr x, db)"

definition dm_raise :: "error \<Rightarrow> 'a dm" where
  "dm_raise e db = (Inl e, db)"

definition dm_bind :: "'a dm \<Rightarrow> ('a \<Rightarrow> 'b dm) \<Rightarrow> 'b dm" where
  "dm_bind m f db = (case m db of (Inl e, db') \<Rightarrow> (Inl e, db') | (Inr x, db') \<Rightarrow> f x db')"

section \<open>The register store (pyModbusTCP \<open>DataBank\<close>)\<close>

text \<open>
  Modelled from the spec: the \<open>DataBank\<close> class comes from the pyModbusTCP package and is
  not part of the sources. Section 4.1 of the spec gives its contract: four zero-based
  banks, \<open>get(bank, addr, count)\<close> yields the cells or out-of-range, \<open>set(bank, addr, values)\<close>
  yields OK or out-of-range, out-of-range whenever \<open>addr + count\<close> exceeds the length of
  the bank, never a truncated or padded result, and no validation of the values. The
  callers in \<open>data_model.py\<close> test the result of a get with \<open>if not vals\<close>, so
  out-of-range is a returned \<open>None\<close> and not an exception. A negative address is outside
  a zero-based bank. The length of each bank is whatever the bank was built with.
\<close>

definition get_cells :: "'a list \<Rightarrow> int \<Rightarrow> nat \<Rightarrow> 'a list option" where
  "get_cells cells addr number =
     (if 0 \<le> addr \<and> nat addr + number \<le> length cells
      then Some (take number (drop (nat addr) cells)) else None)"

definition set_cells :: "'a list \<Rightarrow> int \<Rightarrow> 'a list \<Rightarrow> 'a list option" where
  "set_cells cells addr vs =
     (if 0 \<le> addr \<and> nat addr + length vs \<le> length cells
      then Some (take (nat addr) cells @ vs @ drop (nat addr + length vs) cells) else None)"

text \<open>Modelled from the spec: a fresh bank of the given sizes, registers 0 and bits False.\<close>

definition DataBank_new :: "nat \<Rightarrow> nat \<Rightarrow> nat \<Rightarrow> nat \<Rightarrow> DataBank" where
  "DataBank_new n_i n_h n_c n_d =
     \<lparr>i_regs = replicate n_i 0, h_regs = replicate n_h 0,
      coils = replicate n_c False, d_inputs = replicate n_d False\<rparr>"

text \<open>Modelled from the spec: the eight bank methods, each \<open>get_cells\<close> or \<open>set_cells\<close> on its bank.\<close>

definition get_input_registers :: "int \<Rightarrow> nat \<Rightarrow> DataBank \<Rightarrow> int list option" where
  "get_input_registers addr number db = get_cells (i_regs db) addr number"

definition get_holding_registers :: "int \<Rightarrow> nat \<Rightarrow> DataBank \<Rightarrow> int list option" where
  "get_holding_registers addr number db = get_cells (h_regs db) addr number"

definition get_coils :: "int \<Rightarrow> nat \<Rightarrow> DataBank \<Rightarrow> bool list option" where
  "get_coils addr number db = get_cells (coils db) addr number"

definition get_discrete_inputs :: "int \<Rightarrow> nat \<Rightarrow> DataBank \<Rightarrow> bool list option" where
  "get_discrete_inputs addr number db = get_cells (d_inputs db) addr number"

definition set_input_registers :: "int \<Rightarrow> int list \<Rightarrow> DataBank \<Rightarrow> bool option \<times> DataBank" where
  "set_input_registers addr vs db =
     (case set_cells (i_regs db) addr vs of
        None \<Rightarrow> (None, db)
      | Some cells \<Rightarrow> (Some True, db\<lparr>i_regs := cells\<rparr>))"

definition set_holding_registers :: "int \<Rightarrow> int list \<Rightarrow> DataBank \<Rightarrow> bool option \<times> DataBank" where
  "set_holding_registers addr vs db =
     (case set_cells (h_regs db) addr vs of
        None \<Rightarrow> (None, db)
      | Some cells \<Rightarrow> (Some True, db\<lparr>h_regs := cells\<rparr>))"

definition set_coils :: "int \<Rightarrow> bool list \<Rightarrow> DataBank \<Rightarrow> bool option \<times> DataBank" where
  "set_coils addr vs db =
     (case set_cells (coils db) addr vs of
        None \<Rightarrow> (None, db)
      | Some cells \<Rightarrow> (Some True, db\<lparr>coils := cells\<rparr>))"

definition set_discrete_inputs :: "int \<Rightarrow> bool list \<Rightarrow> DataBank \<Rightarrow> bool option \<times> DataBank" where
  "set_discrete_inputs addr vs db =
     (case set_cells (d_inputs db) addr vs of
        None \<Rightarrow> (None, db)
      | Some cells \<Rightarrow> (Some True, db\<lparr>d_inputs := cells\<rparr>))"

section \<open>The address map (\<open>Addresses\<close> in data_model.py)\<close>

definition IR_AIRFLOW :: int where "IR_AIRFLOW = 0"
definition IR_TEMPERATURE :: int where "IR_TEMPERATURE = 1"
definition IR_HUMIDITY :: int where "IR_HUMIDITY = 2"
definition IR_FAN_RPM :: int where "IR_FAN_RPM = 3"
definition IR_FAN_STATE :: int where "IR_FAN_STATE = 4"

definition HR_AIRFLOW_SP :: int where "HR_AIRFLOW_SP = 0"
definition HR_TEMPERATURE_SP :: int where "HR_TEMPERATURE_SP = 1"
definition HR_FAN_MODE_CMD :: int where "HR_FAN_MODE_CMD = 2"
definition HR_FAN_RPM_SP :: int where "HR_FAN_RPM_SP = 3"
definition HR_SIM_ENABLE :: int where "HR_SIM_ENABLE = 4"

definition COIL_FAN_ENABLE :: int where "COIL_FAN_ENABLE = 0"
definition COIL_FAN_HIGH_REQ :: int where "COIL_FAN_HIGH_REQ = 1"
definition COIL_ALARM_RESET :: int where "COIL_ALARM_RESET = 2"

definition DI_FAN_FAULT :: int where "DI_FAN_FAULT = 0"
definition DI_FILTER_DIRTY :: int where "DI_FILTER_DIRTY = 1"
definition DI_FAN_RUNNING :: int where "DI_FAN_RUNNING = 2"

section \<open>\<open>DataModel\<close>: generic helpers\<close>

text \<open>
  \<open>vals = self._db.get_...(addr, 1)\<close>, then \<open>if not vals: raise IndexError(...)\<close> and
  \<open>return vals[0]\<close>: \<open>not vals\<close> holds of \<open>None\<close> and of the empty list. The writers call
  the bank's setter and drop what it returns.
\<close>

definition read_input :: "int \<Rightarrow> int dm" where
  "read_input addr db =
     (case get_input_registers addr 1 db of
        None \<Rightarrow> dm_raise (IndexError ''Input register address out of range: '' addr) db
      | Some [] \<Rightarrow> dm_raise (IndexError ''Input register address out of range: '' addr) db
      | Some (v # _) \<Rightarrow> dm_return v db)"

definition write_input :: "int \<Rightarrow> int \<Rightarrow> unit dm" where
  "write_input addr v db = (Inr (), snd (set_input_registers addr [v] db))"

definition read_holding :: "int \<Rightarrow> int dm" where
  "read_holding addr db =
     (case get_holding_registers addr 1 db of
        None \<Rightarrow> dm_raise (IndexError ''Holding register address out of range: '' addr) db
      | Some [] \<Rightarrow> dm_raise (IndexError ''Holding register address out of range: '' addr) db
      | Some (v # _) \<Rightarrow> dm_return v db)"

definition write_holding :: "int \<Rightarrow> int \<Rightarrow> unit dm" where
  "write_holding addr v db = (Inr (), snd (set_holding_registers addr [v] db))"

definition read_coil :: "int \<Rightarrow> bool dm" where
  "read_coil addr db =
     (case get_coils addr 1 db of
        None \<Rightarrow> dm_raise (IndexError ''Coil address out of range: '' addr) db
      | Some [] \<Rightarrow> dm_raise (IndexError ''Coil address out of range: '' addr) db
      | Some (v # _) \<Rightarrow> dm_return v db)"

definition write_coil :: "int \<Rightarrow> bool \<Rightarrow> unit dm" where
  "write_coil addr v db = (Inr (), snd (set_coils addr [v] db))"

definition read_di :: "int \<Rightarrow> bool dm" where
  "read_di addr db =
     (case get_discrete_inputs addr 1 db of
        None \<Rightarrow> dm_raise (IndexError ''Discrete input address out of range: '' addr) db
      | Some [] \<Rightarrow> dm_raise (IndexError ''Discrete input address out of range: '' addr) db
      | Some (v # _) \<Rightarrow> dm_return v db)"

definition write_di :: "int \<Rightarrow> bool \<Rightarrow> unit dm" where
  "write_di addr v db = (Inr (), snd (set_discrete_inputs addr [v] db))"

section \<open>\<open>DataModel\<close>: initialization\<close>

definition init_banks :: "unit dm" where
  "init_banks db =
     (let db1 = snd (set_input_registers 0 (replicate 32 0) db);
          db2 = snd (set_holding_registers 0 (replicate 32 0) db1);
          db3 = snd (set_coils 0 (replicate 16 False) db2);
          db4 = snd (set_discrete_inputs 0 (replicate 16 False) db3)
      in (Inr (), db4))"

definition init_defaults :: "unit dm" where
  "init_defaults =
     dm_bind (write_holding HR_AIRFLOW_SP 250) (\<lambda>_.
     dm_bind (write_holding HR_TEMPERATURE_SP 225) (\<lambda>_.
     dm_bind (write_holding HR_FAN_MODE_CMD 0) (\<lambda>_.
     dm_bind (write_holding HR_FAN_RPM_SP 900) (\<lambda>_.
     dm_bind (write_holding HR_SIM_ENABLE 1) (\<lambda>_.
     write_coil COIL_FAN_ENABLE True)))))"

definition DataModel_init :: "unit dm" where
  "DataModel_init = dm_bind init_banks (\<lambda>_. init_defaults)"

section \<open>\<open>DataModel\<close>: semantic convenience API\<close>

definition get_sim_enabled :: "bool dm" where
  "get_sim_enabled = dm_bind (read_holding HR_SIM_ENABLE) (\<lambda>v. dm_return (v = 1))"

definition get_fan_mode_cmd :: "int dm" where
  "get_fan_mode_cmd = read_holding HR_FAN_MODE_CMD"

definition get_fan_rpm_sp :: "int dm" where
  "get_fan_rpm_sp = read_holding HR_FAN_RPM_SP"

definition fan_enable :: "bool dm" where
  "fan_enable = read_coil COIL_FAN_ENABLE"

definition fan_high_requested :: "bool dm" where
  "fan_high_requested = read_coil COIL_FAN_HIGH_REQ"

definition set_fan_state :: "int \<Rightarrow> unit dm" where
  "set_fan_state state =
     dm_bind (write_input IR_FAN_STATE state) (\<lambda>_.
     write_di DI_FAN_RUNNING (state > 0))"

definition set_airflow :: "int \<Rightarrow> unit dm" where
  "set_airflow value_scaled = write_input IR_AIRFLOW value_scaled"

definition set_temperature :: "int \<Rightarrow> unit dm" where
  "set_temperature value_scaled = write_input IR_TEMPERATURE value_scaled"

definition set_humidity :: "int \<Rightarrow> unit dm" where
  "set_humidity value_scaled = write_input IR_HUMIDITY value_scaled"

definition set_fan_rpm :: "int \<Rightarrow> unit dm" where
  "set_fan_rpm rpm = write_input IR_FAN_RPM rpm"

definition set_fault :: "bool \<Rightarrow> unit dm" where
  "set_fault fault = write_di DI_FAN_FAULT fault"

definition set_filter_dirty :: "bool \<Rightarrow> unit dm" where
  "set_filter_dirty dirty = write_di DI_FILTER_DIRTY dirty"

definition consume_alarm_reset :: "bool dm" where
  "consume_alarm_reset =
     dm_bind (read_coil COIL_ALARM_RESET) (\<lambda>v.
     if v then dm_bind (write_coil COIL_ALARM_RESET False) (\<lambda>_. dm_return True)
     else dm_return False)"

section \<open>Python's \<open>int(rpm_sp * 0.6)\<close>\<close>

text \<open>
  \<open>rpm_sp * 0.6\<close> is a product of IEEE 754 binary64 numbers: Python converts the int to
  the nearest double (ties to even; \<open>OverflowError\<close> when that is \<open>2 ^ 1024\<close> or more,
  that is when it has more than 1024 bits),
  multiplies it by the double written \<open>0.6\<close>, which is \<open>5404319552844595 / 2 ^ 53\<close>, and
  rounds the exact product to the nearest double; \<open>int\<close> then truncates towards zero.
  Every number involved is 0 or has magnitude at least 0.6, so it is a multiple of
  \<open>2 ^ - 53\<close> and is kept here as that multiple, a non-negative integer, with the sign
  apart.

  \<open>bit_length\<close> is Python's \<open>int.bit_length\<close> on non-negative integers; \<open>round53 p\<close>
  rounds \<open>p \<ge> 0\<close> to 53 significant bits, ties to even.
\<close>

function bit_length :: "int \<Rightarrow> nat" where
  "bit_length n = (if n \<le> 0 then 0 else Suc (bit_length (n div 2)))"
  by pat_completeness auto
termination
  by (relation "measure nat") auto

declare bit_length.simps [simp del]

definition round53 :: "int \<Rightarrow> int" where
  "round53 p =
     (let s = bit_length p - 53; q = p div 2 ^ s; r = p mod 2 ^ s
      in if 2 * r < 2 ^ s \<or> (2 * r = 2 ^ s \<and> even q) then q * 2 ^ s else (q + 1) * 2 ^ s)"

definition float_0_6 :: int where
  "float_0_6 = 5404319552844595"

definition int_mul_0_6 :: "int \<Rightarrow> error + int" where
  "int_mul_0_6 n =
     (let f = round53 \<bar>n\<bar>
      in if 1024 < bit_length f then Inl OverflowError
         else Inr (sgn n * (round53 (f * float_0_6) div 2 ^ 53)))"

section \<open>\<open>FanController.update\<close>\<close>

text \<open>
  \<open>jitter\<close> is the value that the call of \<open>random.randint\<close> returns in this update (the
  branches for LOW and HIGH make one call each, the branch for OFF none).
\<close>

definition FanController_update :: "int \<Rightarrow> unit dm" where
  "FanController_update jitter =
     dm_bind
       (dm_bind fan_enable (\<lambda>en.
        if \<not> en then dm_return 0
        else dm_bind get_fan_mode_cmd (\<lambda>mode_cmd.
          if mode_cmd = 1 \<or> mode_cmd = 2 then dm_return mode_cmd
          else dm_bind fan_high_requested (\<lambda>hi. dm_return (if hi then 2 else 1))))) (\<lambda>state.
     dm_bind (set_fan_state state) (\<lambda>_.
     dm_bind get_fan_rpm_sp (\<lambda>rpm_sp.
     dm_bind
       (if state = 0 then dm_return 0
        else if state = 1 then
          (case int_mul_0_6 rpm_sp of
             Inl e \<Rightarrow> dm_raise e
           | Inr x \<Rightarrow> dm_return (x + jitter))
        else dm_return (rpm_sp + jitter)) (\<lambda>rpm_actual.
     dm_bind (set_fan_rpm (max 0 rpm_actual)) (\<lambda>_.
     let fault = (state > 0 \<and> rpm_actual < 100) in
     dm_bind (set_fault fault) (\<lambda>_.
     dm_bind consume_alarm_reset (\<lambda>reset.
     if reset then set_fault False else dm_return ())))))))"

section \<open>\<open>SensorSimulator.update\<close>\<close>

text \<open>
  \<open>j_temp\<close>, \<open>j_hum\<close> and \<open>j_air\<close> are the values of the three calls of \<open>random.randint\<close>,
  in the order of the calls.
\<close>

definition SensorSimulator_update :: "int \<Rightarrow> int \<Rightarrow> int \<Rightarrow> unit dm" where
  "SensorSimulator_update j_temp j_hum j_air =
     dm_bind get_sim_enabled (\<lambda>enabled.
     if \<not> enabled then dm_return ()
     else
       dm_bind (read_input IR_FAN_STATE) (\<lambda>state.
       let base = 225;
           delta = (if state = 0 then 30 else - 5 * state);
           temp = base + delta + j_temp;
           temp = max 150 (min 300 temp)
       in
       dm_bind (set_temperature temp) (\<lambda>_.
       let humidity = 500 + j_hum in
       dm_bind (set_humidity humidity) (\<lambda>_.
       let airflow_target = (if state = 0 then 0 else if state = 1 then 200 else 350);
           airflow_actual = max 0 (airflow_target + j_air)
       in
       dm_bind (set_airflow airflow_actual) (\<lambda>_.
       set_filter_dirty (state > 0 \<and> airflow_actual < 100))))))"

section \<open>Well-formed register maps\<close>

text \<open>
  \<open>banks_ok\<close>: every bank covers the addresses of the address map (five input registers,
  five holding registers, three coils, three discrete inputs). \<open>fan_consistent\<close>: the
  running bit and the fan state can both be read and agree, running iff state > 0.
\<close>

definition banks_ok :: "DataBank \<Rightarrow> bool" where
  "banks_ok db \<longleftrightarrow>
     5 \<le> length (i_regs db) \<and> 5 \<le> length (h_regs db) \<and>
     3 \<le> length (coils db) \<and> 3 \<le> length (d_inputs db)"


text \<open>A freshly built model with the bank sizes of \<open>_init_banks\<close>, used as a concrete input.\<close>

definition fresh_model :: DataBank where
  "fresh_model = snd (DataModel_init (DataBank_new 32 32 16 16))"



section \<open>Frames\<close>

text \<open>
  \<open>writes_only W_ir W_di W_coil db db'\<close>: from \<open>db\<close> to \<open>db'\<close> no bank changed its
  length, no holding register changed, the input registers, discrete inputs and coils
  outside the three index sets kept their values, and no coil went from false to true.
\<close>

definition writes_only :: "nat set \<Rightarrow> nat set \<Rightarrow> nat set \<Rightarrow> DataBank \<Rightarrow> DataBank \<Rightarrow> bool" where
  "writes_only W_ir W_di W_coil db db' \<longleftrightarrow>
     h_regs db' = h_regs db \<and>
     length (i_regs db') = length (i_regs db) \<and>
     (\<forall>i. i \<notin> W_ir \<longrightarrow> i_regs db' ! i = i_regs db ! i) \<and>
     length (d_inputs db') = length (d_inputs db) \<and>
     (\<forall>i. i \<notin> W_di \<longrightarrow> d_inputs db' ! i = d_inputs db ! i) \<and>
     length (coils db') = length (coils db) \<and>
     (\<forall>i. i \<notin> W_coil \<longrightarrow> coils db' ! i = coils db ! i) \<and>
     (\<forall>i. coils db' ! i \<longrightarrow> coils db ! i)"

section \<open>Example register maps\<close>




definition model_sim_2 :: DataBank where
  "model_sim_2 = snd (write_holding HR_SIM_ENABLE 2 (snd (set_fan_state 1 fresh_model)))"

definition model_sim_0 :: DataBank where
  "model_sim_0 = snd (write_holding HR_SIM_ENABLE 0 fresh_model)"

section \<open>Single-cell access\<close>

lemmas Addresses_defs =
  IR_AIRFLOW_def IR_TEMPERATURE_def IR_HUMIDITY_def IR_FAN_RPM_def IR_FAN_STATE_def
  HR_AIRFLOW_SP_def HR_TEMPERATURE_SP_def HR_FAN_MODE_CMD_def HR_FAN_RPM_SP_def
  HR_SIM_ENABLE_def COIL_FAN_ENABLE_def COIL_FAN_HIGH_REQ_def COIL_ALARM_RESET_def
  DI_FAN_FAULT_def DI_FILTER_DIRTY_def DI_FAN_RUNNING_def

lemma get_cells_1:
  "get_cells xs a (Suc 0) = (if 0 \<le> a \<and> nat a < length xs then Some [xs ! nat a] else None)"
  by (simp add: get_cells_def take_Suc_conv_app_nth Suc_le_eq flip: Cons_nth_drop_Suc)

lemma set_cells_1:
  "set_cells xs a [v] = (if 0 \<le> a \<and> nat a < length xs then Some (xs[nat a := v]) else None)"
  by (simp add: set_cells_def upd_conv_take_nth_drop Suc_le_eq)

lemma read_input_eq:
  "read_input a db =
     (if 0 \<le> a \<and> nat a < length (i_regs db) then (Inr (i_regs db ! nat a), db)
      else (Inl (IndexError ''Input register address out of range: '' a), db))"
  by (simp add: read_input_def get_input_registers_def get_cells_1 dm_return_def dm_raise_def)

lemma read_holding_eq:
  "read_holding a db =
     (if 0 \<le> a \<and> nat a < length (h_regs db) then (Inr (h_regs db ! nat a), db)
      else (Inl (IndexError ''Holding register address out of range: '' a), db))"
  by (simp add: read_holding_def get_holding_registers_def get_cells_1 dm_return_def dm_raise_def)

lemma read_coil_eq:
  "read_coil a db =
     (if 0 \<le> a \<and> nat a < length (coils db) then (Inr (coils db ! nat a), db)
      else (Inl (IndexError ''Coil address out of range: '' a), db))"
  by (simp add: read_coil_def get_coils_def get_cells_1 dm_return_def dm_raise_def)

lemma read_di_eq:
  "read_di a db =
     (if 0 \<le> a \<and> nat a < length (d_inputs db) then (Inr (d_inputs db ! nat a), db)
      else (Inl (IndexError ''Discrete input address out of range: '' a), db))"
  by (simp add: read_di_def get_discrete_inputs_def get_cells_1 dm_return_def dm_raise_def)

lemma write_input_eq:
  "write_input a v db =
     (Inr (), if 0 \<le> a \<and> nat a < length (i_regs db)
              then db\<lparr>i_regs := (i_regs db)[nat a := v]\<rparr> else db)"
  by (simp add: write_input_def set_input_registers_def set_cells_1)

lemma write_holding_eq:
  "write_holding a v db =
     (Inr (), if 0 \<le> a \<and> nat a < length (h_regs db)
              then db\<lparr>h_regs := (h_regs db)[nat a := v]\<rparr> else db)"
  by (simp add: write_holding_def set_holding_registers_def set_cells_1)

lemma write_coil_eq:
  "write_coil a v db =
     (Inr (), if 0 \<le> a \<and> nat a < length (coils db)
              then db\<lparr>coils := (coils db)[nat a := v]\<rparr> else db)"
  by (simp add: write_coil_def set_coils_def set_cells_1)

lemma write_di_eq:
  "write_di a v db =
     (Inr (), if 0 \<le> a \<and> nat a < length (d_inputs db)
              then db\<lparr>d_inputs := (d_inputs db)[nat a := v]\<rparr> else db)"
  by (simp add: write_di_def set_discrete_inputs_def set_cells_1)

lemmas access_eqs =
  read_input_eq read_holding_eq read_coil_eq read_di_eq
  write_input_eq write_holding_eq write_coil_eq write_di_eq

lemmas api_defs =
  get_sim_enabled_def get_fan_mode_cmd_def get_fan_rpm_sp_def fan_enable_def
  fan_high_requested_def set_fan_state_def set_airflow_def set_temperature_def
  set_humidity_def set_fan_rpm_def set_fault_def set_filter_dirty_def consume_alarm_reset_def

lemmas dm_defs = dm_bind_def dm_return_def dm_raise_def

section \<open>The double product agrees with the exact one on 16-bit setpoints\<close>











section \<open>A concrete register map\<close>

lemma fresh_model_eq:
  "fresh_model =
     \<lparr>i_regs = replicate 32 0,
      h_regs = [250, 225, 0, 900, 1] @ replicate 27 0,
      coils = True # replicate 15 False,
      d_inputs = replicate 16 False\<rparr>"
  by code_simp


lemmas all_defs =
  FanController_update_def SensorSimulator_update_def api_defs dm_defs access_eqs
  Addresses_defs Let_def

section \<open>\<open>FanController.update\<close> in closed form\<close>




lemma banks_ok_nonempty:
  assumes "banks_ok db"
  shows "i_regs db \<noteq> []" "h_regs db \<noteq> []" "coils db \<noteq> []" "d_inputs db \<noteq> []"
  using assms by (auto simp: banks_ok_def)



section \<open>\<open>SensorSimulator.update\<close> in closed form\<close>

lemma SensorSimulator_update_enabled:
  assumes "banks_ok db" and "h_regs db ! 4 = 1"
  shows "SensorSimulator_update j_temp j_hum j_air db =
    (Inr (),
     db\<lparr>i_regs := (i_regs db)
          [1 := max 150 (min 300 (225 + (if i_regs db ! 4 = 0 then 30 else - 5 * i_regs db ! 4)
                 + j_temp)),
           2 := 500 + j_hum,
           0 := max 0 ((if i_regs db ! 4 = 0 then 0 else if i_regs db ! 4 = 1 then 200 else 350)
                 + j_air)],
        d_inputs := (d_inputs db)
          [1 := 0 < i_regs db ! 4 \<and>
                max 0 ((if i_regs db ! 4 = 0 then 0 else if i_regs db ! 4 = 1 then 200 else 350)
                  + j_air) < 100]\<rparr>)"
  using assms
  by (simp add: banks_ok_def all_defs banks_ok_nonempty [OF assms(1)])

lemma SensorSimulator_update_disabled:
  assumes "5 \<le> length (h_regs db)" and "h_regs db ! 4 \<noteq> 1"
  shows "SensorSimulator_update j_temp j_hum j_air db = (Inr (), db)"
  using assms
  by (simp add: SensorSimulator_update_def get_sim_enabled_def dm_defs read_holding_eq
      Addresses_defs)

section \<open>\<open>consume_alarm_reset\<close> in closed form\<close>

lemma consume_alarm_reset_eq:
  assumes "3 \<le> length (coils db)"
  shows "consume_alarm_reset db = (Inr (coils db ! 2), db\<lparr>coils := (coils db)[2 := False]\<rparr>)"
proof -
  have id: "\<not> coils db ! 2 \<Longrightarrow> (coils db)[2 := False] = coils db"
    by (metis list_update_id)
  from assms show ?thesis
    by (cases "coils db ! 2") (simp_all add: consume_alarm_reset_def dm_defs access_eqs
        Addresses_defs id)
qed

lemma consume_alarm_reset_idle:
  assumes "3 \<le> length (coils db)" and "\<not> coils db ! 2"
  shows "((\<lambda>d. snd (consume_alarm_reset d)) ^^ n) db = db"
proof (induction n)
  case 0
  show ?case by simp
next
  case (Suc n)
  have "(coils db)[2 := False] = coils db" using assms(2) by (metis list_update_id)
  with Suc assms(1) show ?case by (simp add: consume_alarm_reset_eq)
qed

section \<open>What the operations leave alone\<close>

lemma writes_only_refl: "writes_only A B C db db"
  by (simp add: writes_only_def)

lemma writes_only_trans:
  "writes_only A B C db db' \<Longrightarrow> writes_only A B C db' db'' \<Longrightarrow> writes_only A B C db db''"
  by (simp add: writes_only_def)

lemma writes_only_bind:
  assumes "\<And>d. writes_only A B C d (snd (m d))"
    and "\<And>x d. writes_only A B C d (snd (f x d))"
  shows "writes_only A B C db (snd (dm_bind m f db))"
proof (cases "m db")
  case (Pair r d)
  with assms(1) [of db] have 1: "writes_only A B C db d" by simp
  show ?thesis
  proof (cases r)
    case (Inl e)
    with Pair 1 show ?thesis by (simp add: dm_bind_def)
  next
    case (Inr x)
    with Pair have "snd (dm_bind m f db) = snd (f x d)" by (simp add: dm_bind_def)
    with 1 assms(2) [of d x] show ?thesis by (simp add: writes_only_trans)
  qed
qed

lemma writes_only_return: "writes_only A B C d (snd (dm_return x d))"
  by (simp add: dm_return_def writes_only_refl)

lemma writes_only_raise: "writes_only A B C d (snd (dm_raise e d))"
  by (simp add: dm_raise_def writes_only_refl)

lemma writes_only_if:
  assumes "writes_only A B C d (snd (m1 d))" and "writes_only A B C d (snd (m2 d))"
  shows "writes_only A B C d (snd ((if c then m1 else m2) d))"
  using assms by simp

lemma writes_only_case_sum:
  assumes "\<And>e. writes_only A B C d (snd (f e d))" and "\<And>x. writes_only A B C d (snd (g x d))"
  shows "writes_only A B C d (snd ((case s of Inl e \<Rightarrow> f e | Inr x \<Rightarrow> g x) d))"
  using assms by (cases s) simp_all

lemma writes_only_read:
  "writes_only A B C d (snd (read_input a d))"
  "writes_only A B C d (snd (read_holding a d))"
  "writes_only A B C d (snd (read_coil a d))"
  "writes_only A B C d (snd (read_di a d))"
  by (simp_all add: access_eqs writes_only_refl)

lemma writes_only_write_input:
  assumes "nat a \<in> A"
  shows "writes_only A B C d (snd (write_input a v d))"
  using assms by (auto simp: write_input_eq writes_only_def nth_list_update)

lemma writes_only_write_di:
  assumes "nat a \<in> B"
  shows "writes_only A B C d (snd (write_di a v d))"
  using assms by (auto simp: write_di_eq writes_only_def nth_list_update)

lemma writes_only_clear_coil:
  assumes "nat a \<in> C"
  shows "writes_only A B C d (snd (write_coil a False d))"
  using assms by (auto simp: write_coil_eq writes_only_def nth_list_update)

lemmas writes_only_intros =
  writes_only_bind writes_only_return writes_only_raise writes_only_if writes_only_case_sum
  writes_only_read writes_only_write_input writes_only_write_di writes_only_clear_coil

lemma FanController_update_writes_only:
  "writes_only {3, 4} {0, 2} {2} db (snd (FanController_update jitter db))"
  unfolding FanController_update_def api_defs Let_def
  by (intro writes_only_intros) (simp_all add: Addresses_defs)


lemma writes_only_read_input:
  assumes "writes_only A B C db db'" and "nat a \<notin> A"
  shows "fst (read_input a db') = fst (read_input a db)"
  using assms by (simp add: writes_only_def read_input_eq)

lemma writes_only_read_di:
  assumes "writes_only A B C db db'" and "nat a \<notin> B"
  shows "fst (read_di a db') = fst (read_di a db)"
  using assms by (simp add: writes_only_def read_di_eq)

lemma writes_only_read_coil:
  assumes "writes_only A B C db db'" and "nat a \<notin> C"
  shows "fst (read_coil a db') = fst (read_coil a db)"
  using assms by (simp add: writes_only_def read_coil_eq)

lemma writes_only_read_holding:
  assumes "writes_only A B C db db'"
  shows "fst (read_holding a db') = fst (read_holding a db)"
  using assms by (simp add: writes_only_def read_holding_eq)

section \<open>The fan state and the running bit\<close>






section \<open>Claims\<close>





text \<open>
  C3. \<open>consume_alarm_reset\<close> returns the current value of the alarm-reset coil and leaves
  the coil false. After the coil is set true the first call returns true, and every later
  call, with no new set in between, returns false and finds the coil false.
\<close>

theorem C3_alarm_reset_consumed_once:
  assumes "fst (read_coil COIL_ALARM_RESET db) = Inr v"
  shows "fst (consume_alarm_reset db) = Inr v \<and>
    fst (read_coil COIL_ALARM_RESET (snd (consume_alarm_reset db))) = Inr False \<and>
    fst (consume_alarm_reset (snd (write_coil COIL_ALARM_RESET True db))) = Inr True \<and>
    (\<forall>n. fst (consume_alarm_reset (((\<lambda>d. snd (consume_alarm_reset d)) ^^ Suc n)
            (snd (write_coil COIL_ALARM_RESET True db)))) = Inr False \<and>
         fst (read_coil COIL_ALARM_RESET (((\<lambda>d. snd (consume_alarm_reset d)) ^^ Suc n)
            (snd (write_coil COIL_ALARM_RESET True db)))) = Inr False)"
proof -
  from assms have len: "3 \<le> length (coils db)" and v: "coils db ! 2 = v"
    by (simp_all add: access_eqs Addresses_defs split: if_splits)
  define db1 where "db1 = snd (write_coil COIL_ALARM_RESET True db)"
  define db2 where "db2 = snd (consume_alarm_reset db1)"
  from len have db1: "db1 = db\<lparr>coils := (coils db)[2 := True]\<rparr>"
    by (simp add: db1_def access_eqs Addresses_defs)
  then have len1: "3 \<le> length (coils db1)" and t: "coils db1 ! 2" using len by simp_all
  from len1 have db2: "db2 = db1\<lparr>coils := (coils db1)[2 := False]\<rparr>"
    by (simp add: db2_def consume_alarm_reset_eq)
  then have len2: "3 \<le> length (coils db2)" and f: "\<not> coils db2 ! 2" using len1 by simp_all
  have later: "((\<lambda>d. snd (consume_alarm_reset d)) ^^ Suc n) db1 = db2" for n
    using consume_alarm_reset_idle [OF len2 f, of n]
    by (simp add: funpow_Suc_right db2_def del: funpow.simps)
  from len v have a: "fst (consume_alarm_reset db) = Inr v"
    "fst (read_coil COIL_ALARM_RESET (snd (consume_alarm_reset db))) = Inr False"
    by (simp_all add: consume_alarm_reset_eq access_eqs Addresses_defs)
  from len1 t have b: "fst (consume_alarm_reset db1) = Inr True"
    by (simp add: consume_alarm_reset_eq)
  from len2 f have c: "fst (consume_alarm_reset db2) = Inr False"
    "fst (read_coil COIL_ALARM_RESET db2) = Inr False"
    by (simp_all add: consume_alarm_reset_eq access_eqs Addresses_defs)
  from a b c show ?thesis
    unfolding db1_def [symmetric] later by simp
qed

theorem C3_witness:
  "fst (consume_alarm_reset fresh_model) = Inr False \<and>
   fst (consume_alarm_reset (snd (write_coil COIL_ALARM_RESET True fresh_model))) = Inr True \<and>
   fst (consume_alarm_reset (snd (consume_alarm_reset
     (snd (write_coil COIL_ALARM_RESET True fresh_model))))) = Inr False"
proof -
  have 1: "fst (read_coil COIL_ALARM_RESET fresh_model) = Inr False" by code_simp
  from C3_alarm_reset_consumed_once [OF 1] show ?thesis
    by (auto dest: spec [of _ 0])
qed




text \<open>
  C5. Generic single-cell access beyond the bank's length: on a freshly built model the four
  generic writes at address 70000 return normally and leave the register map as it was,
  while the generic read at the same address raises \<open>IndexError\<close> with the bank and the
  address.
\<close>

theorem C5_out_of_range_write_is_silent:
  "write_input 70000 7 fresh_model = (Inr (), fresh_model) \<and>
   write_holding 70000 7 fresh_model = (Inr (), fresh_model) \<and>
   write_coil 70000 True fresh_model = (Inr (), fresh_model) \<and>
   write_di 70000 True fresh_model = (Inr (), fresh_model) \<and>
   fst (read_input 70000 fresh_model) =
     Inl (IndexError ''Input register address out of range: '' 70000)"
  by (simp add: access_eqs fresh_model_eq)



text \<open>
  C7. When the sim-enable holding register is 1, one \<open>SensorSimulator.update\<close> writes the
  temperature \<open>225 + (30 if the fan state is OFF else -5 * state) + jitter\<close> clamped into
  [150, 300]: with jitter 0 that is 255, 220 and 215 for the states 0, 1 and 2, and for
  every jitter the written temperature stays in [150, 300].
\<close>

theorem C7_temperature_when_enabled:
  assumes "banks_ok db"
    and "fst (read_holding HR_SIM_ENABLE db) = Inr 1"
    and "fst (read_input IR_FAN_STATE db) = Inr state"
  shows "\<exists>temp.
      fst (read_input IR_TEMPERATURE (snd (SensorSimulator_update j_temp j_hum j_air db))) =
        Inr temp \<and>
      temp = max 150 (min 300 (225 + (if state = 0 then 30 else - 5 * state) + j_temp)) \<and>
      150 \<le> temp \<and> temp \<le> 300"
proof -
  from assms have h: "h_regs db ! 4 = 1" and s: "i_regs db ! 4 = state"
    by (simp_all add: banks_ok_def access_eqs Addresses_defs)
  from assms(1) s show ?thesis
    by (simp add: SensorSimulator_update_enabled [OF assms(1) h] banks_ok_def access_eqs
        Addresses_defs)
qed

theorem C7_witness:
  "fst (read_input IR_TEMPERATURE (snd (SensorSimulator_update 0 0 0
      (snd (set_fan_state 0 fresh_model))))) = Inr 255 \<and>
   fst (read_input IR_TEMPERATURE (snd (SensorSimulator_update 0 0 0
      (snd (set_fan_state 1 fresh_model))))) = Inr 220 \<and>
   fst (read_input IR_TEMPERATURE (snd (SensorSimulator_update 0 0 0
      (snd (set_fan_state 2 fresh_model))))) = Inr 215 \<and>
   fst (read_input IR_TEMPERATURE (snd (SensorSimulator_update 100 0 0
      (snd (set_fan_state 0 fresh_model))))) = Inr 300 \<and>
   fst (read_input IR_TEMPERATURE (snd (SensorSimulator_update (- 100) 0 0
      (snd (set_fan_state 2 fresh_model))))) = Inr 150"
proof -
  have 1: "banks_ok (snd (set_fan_state s fresh_model))" for s
    by (simp add: set_fan_state_def dm_defs access_eqs banks_ok_def fresh_model_eq)
  have 2: "fst (read_holding HR_SIM_ENABLE (snd (set_fan_state s fresh_model))) = Inr 1" for s
    by (simp add: set_fan_state_def dm_defs access_eqs fresh_model_eq Addresses_defs)
  have 3: "fst (read_input IR_FAN_STATE (snd (set_fan_state s fresh_model))) = Inr s" for s
    by (simp add: set_fan_state_def dm_defs access_eqs fresh_model_eq Addresses_defs)
  from C7_temperature_when_enabled [OF 1 [of 0] 2 [of 0] 3 [of 0], of 0 0 0]
    C7_temperature_when_enabled [OF 1 [of 1] 2 [of 1] 3 [of 1], of 0 0 0]
    C7_temperature_when_enabled [OF 1 [of 2] 2 [of 2] 3 [of 2], of 0 0 0]
    C7_temperature_when_enabled [OF 1 [of 0] 2 [of 0] 3 [of 0], of 100 0 0]
    C7_temperature_when_enabled [OF 1 [of 2] 2 [of 2] 3 [of 2], of "- 100" 0 0]
  show ?thesis by simp
qed

text \<open>
  With sim-enable at 2, which is nonzero, the update writes nothing: the temperature
  register keeps its 0 where the formula gives 220.
\<close>

theorem C7_counterexample:
  "fst (read_holding HR_SIM_ENABLE model_sim_2) = Inr 2 \<and>
   fst (read_input IR_FAN_STATE model_sim_2) = Inr 1 \<and>
   fst (read_input IR_TEMPERATURE (snd (SensorSimulator_update 0 0 0 model_sim_2))) = Inr 0 \<and>
   fst (read_input IR_TEMPERATURE (snd (SensorSimulator_update 0 0 0 model_sim_2))) \<noteq>
     Inr (max 150 (min 300 (225 + (- 5 * 1) + 0)))"
  by code_simp




text \<open>
  C9. When the sim-enable holding register is 0, \<open>SensorSimulator.update\<close> returns normally
  and performs no write: the whole register map (every input register, discrete input,
  holding register and coil) is the same after the call as before it.
\<close>

theorem C9_sim_disabled_no_writes:
  assumes "fst (read_holding HR_SIM_ENABLE db) = Inr 0"
  shows "SensorSimulator_update j_temp j_hum j_air db = (Inr (), db)"
proof -
  from assms have "read_holding HR_SIM_ENABLE db = (Inr 0, db)"
    by (simp add: access_eqs split: if_splits)
  then show ?thesis
    by (simp add: SensorSimulator_update_def get_sim_enabled_def dm_defs)
qed

theorem C9_witness:
  "fst (read_holding HR_SIM_ENABLE model_sim_0) = Inr 0 \<and>
   SensorSimulator_update 3 (- 4) 5 model_sim_0 = (Inr (), model_sim_0)"
proof -
  have 1: "fst (read_holding HR_SIM_ENABLE model_sim_0) = Inr 0" by code_simp
  from C9_sim_disabled_no_writes [OF 1] 1 show ?thesis by simp
qed

text \<open>
  C10. From every register map, \<open>FanController.update\<close> writes only the fan-state and
  fan-RPM input registers, the fan-running and fan-fault discrete inputs and the
  alarm-reset coil, which it can only clear: every holding register, every other coil,
  every other discrete input and every other input register reads the same after the call
  as before it, also when the call raises.
\<close>

theorem C10_fan_update_frame:
  "(\<forall>a. fst (read_holding a (snd (FanController_update jitter db))) = fst (read_holding a db)) \<and>
   (\<forall>a. a \<noteq> COIL_ALARM_RESET \<longrightarrow>
      fst (read_coil a (snd (FanController_update jitter db))) = fst (read_coil a db)) \<and>
   (\<forall>a. a \<noteq> DI_FAN_RUNNING \<and> a \<noteq> DI_FAN_FAULT \<longrightarrow>
      fst (read_di a (snd (FanController_update jitter db))) = fst (read_di a db)) \<and>
   (\<forall>a. a \<noteq> IR_FAN_STATE \<and> a \<noteq> IR_FAN_RPM \<longrightarrow>
      fst (read_input a (snd (FanController_update jitter db))) = fst (read_input a db)) \<and>
   (fst (read_coil COIL_ALARM_RESET (snd (FanController_update jitter db))) =
      fst (read_coil COIL_ALARM_RESET db) \<or>
    fst (read_coil COIL_ALARM_RESET (snd (FanController_update jitter db))) = Inr False)"
proof -
  define db' where "db' = snd (FanController_update jitter db)"
  have w: "writes_only {3, 4} {0, 2} {2} db db'"
    unfolding db'_def by (rule FanController_update_writes_only)
  have neg: "fst (read_coil a db') = fst (read_coil a db)" if "a < 0" for a
    using that w by (simp add: read_coil_eq writes_only_def)
  have 1: "fst (read_holding a db') = fst (read_holding a db)" for a
    using w by (rule writes_only_read_holding)
  have 2: "fst (read_coil a db') = fst (read_coil a db)" if "a \<noteq> COIL_ALARM_RESET" for a
  proof (cases "a < 0")
    case True
    with w show ?thesis by (simp add: read_coil_eq writes_only_def)
  next
    case False
    with that have "nat a \<notin> {2}" by (auto simp: Addresses_defs nat_eq_iff)
    with w show ?thesis by (rule writes_only_read_coil)
  qed
  have 3: "fst (read_di a db') = fst (read_di a db)"
    if "a \<noteq> DI_FAN_RUNNING \<and> a \<noteq> DI_FAN_FAULT" for a
  proof (cases "a < 0")
    case True
    with w show ?thesis by (simp add: read_di_eq writes_only_def)
  next
    case False
    with that have "nat a \<notin> {0, 2}" by (auto simp: Addresses_defs nat_eq_iff)
    with w show ?thesis by (rule writes_only_read_di)
  qed
  have 4: "fst (read_input a db') = fst (read_input a db)"
    if "a \<noteq> IR_FAN_STATE \<and> a \<noteq> IR_FAN_RPM" for a
  proof (cases "a < 0")
    case True
    with w show ?thesis by (simp add: read_input_eq writes_only_def)
  next
    case False
    with that have "nat a \<notin> {3, 4}" by (auto simp: Addresses_defs nat_eq_iff)
    with w show ?thesis by (rule writes_only_read_input)
  qed
  have 5: "fst (read_coil COIL_ALARM_RESET db') = fst (read_coil COIL_ALARM_RESET db) \<or>
    fst (read_coil COIL_ALARM_RESET db') = Inr False"
    using w by (auto simp: read_coil_eq writes_only_def)
  from 1 2 3 4 5 show ?thesis unfolding db'_def by blast
qed

theorem C10_witness:
  "fst (read_holding HR_FAN_RPM_SP (snd (FanController_update 0 fresh_model))) = Inr 900 \<and>
   fst (read_coil COIL_FAN_ENABLE (snd (FanController_update 0 fresh_model))) = Inr True \<and>
   fst (read_di DI_FILTER_DIRTY (snd (FanController_update 0 fresh_model))) = Inr False \<and>
   fst (read_input IR_TEMPERATURE (snd (FanController_update 0 fresh_model))) = Inr 0"
proof -
  have 1: "fst (read_holding HR_FAN_RPM_SP fresh_model) = Inr 900"
    "fst (read_coil COIL_FAN_ENABLE fresh_model) = Inr True"
    "fst (read_di DI_FILTER_DIRTY fresh_model) = Inr False"
    "fst (read_input IR_TEMPERATURE fresh_model) = Inr 0"
    by code_simp+
  have 2: "COIL_FAN_ENABLE \<noteq> COIL_ALARM_RESET"
    "DI_FILTER_DIRTY \<noteq> DI_FAN_RUNNING \<and> DI_FILTER_DIRTY \<noteq> DI_FAN_FAULT"
    "IR_TEMPERATURE \<noteq> IR_FAN_STATE \<and> IR_TEMPERATURE \<noteq> IR_FAN_RPM"
    by (simp_all add: Addresses_defs)
  from C10_fan_update_frame [of 0 fresh_model] 1 2 show ?thesis by auto
qed

end
